theory Spec2Isabelle
  imports Main "HOL-Library.Word"
begin

unbundle bit_operations_syntax

section \<open>The model state of the Verilated design\<close>

text \<open>
  The storage types of the Verilator runtime: \<open>CData\<close> is an 8-bit, \<open>IData\<close> a 32-bit and
  \<open>QData\<close> a 64-bit unsigned integer.  \<open>VL_IN8\<close>, \<open>VL_OUT8\<close> and \<open>VL_OUT64\<close> declare
  fields of those same storage types.
\<close>

type_synonym CData = "8 word"
type_synonym IData = "32 word"
type_synonym QData = "64 word"

text \<open>
  \<open>VlTriggerVec<N>\<close> is a set of \<open>N\<close> trigger flags.  The class keeps the flags private and
  the generated code only reaches them through \<open>set\<close>, \<open>any\<close> and \<open>word\<close>, so a vector of
  \<open>N\<close> flags is an \<open>N\<close>-bit word here; \<open>word(0)\<close> reads the flags as a 64-bit value.
\<close>

definition VlTriggerVec_any :: "'a::len word \<Rightarrow> bool" where
  "VlTriggerVec_any v = (v \<noteq> 0)"

definition VlTriggerVec_word0 :: "'a::len word \<Rightarrow> QData" where
  "VlTriggerVec_word0 v = ucast v"

definition VlTriggerVec_set :: "nat \<Rightarrow> bool \<Rightarrow> 'a::len word \<Rightarrow> 'a word" where
  "VlTriggerVec_set index val v = (if val then set_bit index v else unset_bit index v)"

text \<open>The class \<open>Vtop___024root\<close>: one field per line of its ``design specific state''.\<close>

record Vtop_root =
  clk :: CData
  Top__DOT____Vcellinp__TriggerCounterImpl__rst_n :: CData
  rst :: CData
  global_finish :: CData
  Top__DOT__clk :: CData
  Top__DOT__rst :: CData
  Top__DOT__global_finish :: CData
  Top__DOT___Driver_executed :: CData
  Top__DOT___Driver_cnt_w_port0 :: CData
  Top__DOT___TriggerCounterImpl_pop_valid :: CData
  Top__DOT__cnt__DOT__clk :: CData
  Top__DOT__cnt__DOT__rst :: CData
  Top__DOT__cnt__DOT__w_port0 :: CData
  Top__DOT__cnt__DOT__widx_port0 :: CData
  Top__DOT__TriggerCounterImpl__DOT__clk :: CData
  Top__DOT__TriggerCounterImpl__DOT__rst_n :: CData
  Top__DOT__TriggerCounterImpl__DOT__delta :: CData
  Top__DOT__TriggerCounterImpl__DOT__delta_ready :: CData
  Top__DOT__TriggerCounterImpl__DOT__pop_ready :: CData
  Top__DOT__TriggerCounterImpl__DOT__pop_valid :: CData
  Top__DOT__TriggerCounterImpl__DOT__count :: CData
  Top__DOT__TriggerCounterImpl__DOT__temp :: CData
  Top__DOT__TriggerCounterImpl__DOT__new_count :: CData
  Top__DOT__Driver__DOT__clk :: CData
  Top__DOT__Driver__DOT__rst :: CData
  Top__DOT__Driver__DOT__trigger_counter_pop_valid :: CData
  Top__DOT__Driver__DOT__executed :: CData
  Top__DOT__Driver__DOT__finish :: CData
  Top__DOT__Driver__DOT__cnt_w_port0 :: CData
  Top__DOT__Driver__DOT__cnt_widx_port0 :: CData
  Top__DOT__Driver__DOT__valid_Driver_cnt_rd_1 :: CData
  VstlFirstIteration :: CData
  VicoFirstIteration :: CData
  Vtrigprevexpr___TOP__clk__0 :: CData
  Vtrigprevexpr___TOP__Top__DOT____Vcellinp__TriggerCounterImpl__rst_n__0 :: CData
  VactContinue :: CData
  Top__DOT___Driver_cnt_wdata_port0 :: IData
  Top__DOT___cnt_rdata_port0 :: IData
  Top__DOT___cnt_rdata_port1 :: IData
  Top__DOT__cnt__DOT__wdata_port0 :: IData
  Top__DOT__cnt__DOT__rdata_port0 :: IData
  Top__DOT__cnt__DOT__rdata_port1 :: IData
  Top__DOT__cnt__DOT___GEN :: IData
  Top__DOT__cnt__DOT___GEN_0 :: IData
  Top__DOT__Driver__DOT__cnt_rdata_port0 :: IData
  Top__DOT__Driver__DOT__cnt_rdata_port1 :: IData
  Top__DOT__Driver__DOT__cnt_wdata_port0 :: IData
  Top__DOT__Driver__DOT__expose_Driver_cnt_rd_1 :: IData
  VactIterCount :: IData
  global_cycle_count :: QData
  Top__DOT__global_cycle_count :: QData
  Top__DOT___GEN :: QData
  Top__DOT__Driver__DOT__cycle_count :: QData
  VstlTriggered :: "1 word"
  VicoTriggered :: "1 word"
  VactTriggered :: "2 word"
  VnbaTriggered :: "2 word"

section \<open>Static initialisation, initial evaluation, finalisation\<close>

text \<open>
  The generated functions all have the shape \<open>void f(Vtop___024root* vlSelf)\<close>: they take
  the model and update it in place.  Here they take the model and return the updated one.
\<close>

type_synonym vl_function = "Vtop_root \<Rightarrow> Vtop_root"

text \<open>\<open>Vtop___024root___eval_static\<close>: the body only emits a debug message.\<close>

definition eval_static :: "Vtop_root \<Rightarrow> Vtop_root" where
  "eval_static vlSelf = vlSelf"

text \<open>\<open>Vtop___024root___eval_initial__TOP\<close>: five assignments of constants.\<close>

definition eval_initial__TOP :: "Vtop_root \<Rightarrow> Vtop_root" where
  "eval_initial__TOP vlSelf =
     vlSelf\<lparr>Top__DOT__global_finish := 0,
            Top__DOT__Driver__DOT__finish := 0,
            Top__DOT__Driver__DOT__cnt_widx_port0 := 0,
            Top__DOT__cnt__DOT__widx_port0 := 0,
            Top__DOT__TriggerCounterImpl__DOT__delta := 1\<rparr>"

text \<open>
  \<open>Vtop___024root___eval_initial\<close>: run the initial block, then copy the two sensitivity
  signals into their previous-value snapshots.
\<close>

definition eval_initial :: "Vtop_root \<Rightarrow> Vtop_root" where
  "eval_initial vlSelf =
     (let s1 = eval_initial__TOP vlSelf;
          s2 = s1\<lparr>Vtrigprevexpr___TOP__clk__0 := clk s1\<rparr>
      in s2\<lparr>Vtrigprevexpr___TOP__Top__DOT____Vcellinp__TriggerCounterImpl__rst_n__0 :=
               Top__DOT____Vcellinp__TriggerCounterImpl__rst_n s2\<rparr>)"

text \<open>\<open>Vtop___024root___eval_final\<close>: the body only emits a debug message.\<close>

definition eval_final :: "Vtop_root \<Rightarrow> Vtop_root" where
  "eval_final vlSelf = vlSelf"

section \<open>The settle loop\<close>

text \<open>
  \<open>VL_FATAL_MT(file, line, hier, msg)\<close> reports the fatal condition and ends the process:
  nothing after it runs.  The report is the error value of the model.
\<close>

datatype VL_FATAL = VL_FATAL_MT string nat string string

definition settle_fatal :: VL_FATAL where
  "settle_fatal =
     VL_FATAL_MT ''/home/tomorrow_arc1/CS/assassyn/MyCPU/workspace/driver/verilog/sv/hw/Top.sv''
       2 '''' ''Settle region did not converge.''"

text \<open>
  The source file calls two functions whose bodies it does not contain,
  \<open>Vtop___024root___eval_triggers__stl\<close> and \<open>Vtop___024root___ico_sequent__TOP__0\<close>.
  Both take the model and return nothing; they are the parameters \<open>trg\<close> and \<open>ico\<close> of
  everything below, so that what is proved of the loop holds whatever they do.
\<close>

text \<open>\<open>Vtop___024root___eval_stl\<close>: run the settle logic when flag 0 is set.\<close>

definition eval_stl :: "vl_function \<Rightarrow> Vtop_root \<Rightarrow> Vtop_root" where
  "eval_stl ico vlSelf =
     (if 1 AND VlTriggerVec_word0 (VstlTriggered vlSelf) \<noteq> 0 then ico vlSelf else vlSelf)"

text \<open>
  \<open>Vtop___024root___eval_phase__stl\<close>: compute the triggers, run the region when any flag
  is set, and return whether it ran.
\<close>

definition eval_phase__stl ::
  "vl_function \<Rightarrow> vl_function \<Rightarrow> Vtop_root \<Rightarrow> bool \<times> Vtop_root" where
  "eval_phase__stl trg ico vlSelf =
     (let s1 = trg vlSelf;
          VstlExecute = VlTriggerVec_any (VstlTriggered s1)
      in if VstlExecute then (VstlExecute, eval_stl ico s1) else (VstlExecute, s1))"

text \<open>
  The \<open>while\<close> loop of \<open>Vtop___024root___eval_settle\<close>, over its two locals
  \<open>__VstlIterCount\<close> and \<open>__VstlContinue\<close>.  The result carries the value of the counter
  when the loop is left, either by the fatal report or by the loop condition.
\<close>

function settle_loop ::
  "vl_function \<Rightarrow> vl_function \<Rightarrow> IData \<Rightarrow> CData \<Rightarrow> Vtop_root
     \<Rightarrow> IData \<times> (VL_FATAL + Vtop_root)" where
  "settle_loop trg ico VstlIterCount VstlContinue vlSelf =
     (if VstlContinue \<noteq> 0 then
        (if 0x64 < VstlIterCount then (VstlIterCount, Inl settle_fatal)
         else (let cnt = 1 + VstlIterCount;
                   r = eval_phase__stl trg ico vlSelf;
                   cont = (if fst r then 1 else 0);
                   s2 = (snd r)\<lparr>VstlFirstIteration := 0\<rparr>
               in settle_loop trg ico cnt cont s2))
      else (VstlIterCount, Inr vlSelf))"
  by pat_completeness auto
termination
  by (relation "measure (\<lambda>(trg, ico, cnt, cont, s). 101 - unat cnt)")
     (auto simp: word_less_nat_alt unat_word_ariths)

declare settle_loop.simps [simp del]

text \<open>
  \<open>Vtop___024root___eval_settle\<close>: the counter starts at 0, the first-iteration flag at 1,
  the continue flag at 1.  \<open>eval_settle_run\<close> keeps the final counter, \<open>eval_settle\<close> is
  what the caller sees.  The trigger dump before the report is compiled under \<open>VL_DEBUG\<close>
  only and writes nothing to the model.
\<close>

definition eval_settle_run ::
  "vl_function \<Rightarrow> vl_function \<Rightarrow> Vtop_root
     \<Rightarrow> IData \<times> (VL_FATAL + Vtop_root)" where
  "eval_settle_run trg ico vlSelf = settle_loop trg ico 0 1 (vlSelf\<lparr>VstlFirstIteration := 1\<rparr>)"

definition eval_settle ::
  "vl_function \<Rightarrow> vl_function \<Rightarrow> Vtop_root \<Rightarrow> VL_FATAL + Vtop_root" where
  "eval_settle trg ico vlSelf = snd (eval_settle_run trg ico vlSelf)"

subsection \<open>One pass of the loop body, and runs of passes\<close>

text \<open>Whether the phase of one pass reports a trigger, and the model after that pass.\<close>

definition stl_fired ::
  "vl_function \<Rightarrow> vl_function \<Rightarrow> Vtop_root \<Rightarrow> bool" where
  "stl_fired trg ico s = fst (eval_phase__stl trg ico s)"

definition stl_pass ::
  "vl_function \<Rightarrow> vl_function \<Rightarrow> Vtop_root \<Rightarrow> Vtop_root" where
  "stl_pass trg ico s = (snd (eval_phase__stl trg ico s))\<lparr>VstlFirstIteration := 0\<rparr>"

text \<open>The first \<open>n\<close> passes from \<open>s\<close> all report a trigger: no convergence within \<open>n\<close> passes.\<close>

fun stl_all_fired ::
  "vl_function \<Rightarrow> vl_function \<Rightarrow> nat \<Rightarrow> Vtop_root \<Rightarrow> bool" where
  "stl_all_fired trg ico 0 s = True"
| "stl_all_fired trg ico (Suc n) s =
     (stl_fired trg ico s \<and> stl_all_fired trg ico n (stl_pass trg ico s))"

text \<open>The number of passes made from \<open>s\<close> when at most \<open>n\<close> are allowed.\<close>

fun stl_passes ::
  "vl_function \<Rightarrow> vl_function \<Rightarrow> nat \<Rightarrow> Vtop_root \<Rightarrow> nat" where
  "stl_passes trg ico 0 s = 0"
| "stl_passes trg ico (Suc n) s =
     (if stl_fired trg ico s then Suc (stl_passes trg ico n (stl_pass trg ico s)) else 1)"

subsection \<open>Iterations as the spec counts them\<close>

text \<open>
  Section 4.3 of the spec words the Settle Loop as ``repeat {run all Settle-region Update
  Functions; recompute triggers restricted to the Settle region; if any Settle-region
  trigger fired, continue; else stop}'': one iteration runs the settle logic and then
  recomputes the triggers, where one pass of the source's loop computes the triggers first
  and runs the logic second.  For the comparison of the two ways of counting: none of the
  first \<open>n\<close> iterations from \<open>s\<close> ends with the triggers quiet.  The pieces are those of the
  source: \<open>eval_stl\<close> runs the logic, the first-iteration flag is cleared after it, and
  \<open>trg\<close> recomputes the triggers.
\<close>

fun spec_not_converged :: "vl_function \<Rightarrow> vl_function \<Rightarrow> nat \<Rightarrow> Vtop_root \<Rightarrow> bool" where
  "spec_not_converged trg ico 0 s = True"
| "spec_not_converged trg ico (Suc n) s =
     (let s2 = trg ((eval_stl ico s)\<lparr>VstlFirstIteration := 0\<rparr>)
      in VlTriggerVec_any (VstlTriggered s2) \<and> spec_not_converged trg ico n s2)"

subsection \<open>The settle trigger of this design\<close>

text \<open>
  Modelled from the spec: the body of \<open>Vtop___024root___eval_triggers__stl\<close> is not among
  the sources, only its declaration and its call in \<open>eval_phase__stl\<close>.  The spec's Trigger
  Detector ``must produce a forced trigger (an explicit "first iteration" flag)'', and the
  trigger dump of the source names settle trigger 0
  ``Internal 'stl' trigger - first iteration'': flag 0 of the settle trigger vector is set
  from the first-iteration flag of the model.
\<close>

definition eval_triggers__stl :: "Vtop_root \<Rightarrow> Vtop_root" where
  "eval_triggers__stl vlSelf =
     vlSelf\<lparr>VstlTriggered :=
       VlTriggerVec_set 0 (VstlFirstIteration vlSelf \<noteq> 0) (VstlTriggered vlSelf)\<rparr>"

section \<open>The region scheduler\<close>

text \<open>
  Modelled from the spec: the step function of the kernel (the evaluation of the active and
  non-blocking regions and their trigger computation) is not among the sources; the header
  only declares its state.  What follows is the Trigger Detector of section 4.2 and the
  Region Scheduler of section 4.4 of the spec, over the model state of the header.
\<close>

text \<open>
  Modelled from the spec: \<open>snapshotPrevious\<close> of section 4.1, for the two sensitivity
  signals that have a previous-value field in the header.
\<close>

definition snapshotPrevious :: "Vtop_root \<Rightarrow> Vtop_root" where
  "snapshotPrevious s =
     s\<lparr>Vtrigprevexpr___TOP__clk__0 := clk s,
       Vtrigprevexpr___TOP__Top__DOT____Vcellinp__TriggerCounterImpl__rst_n__0 :=
         Top__DOT____Vcellinp__TriggerCounterImpl__rst_n s\<rparr>"

text \<open>
  Modelled from the spec: \<open>computeTriggers\<close> of section 4.2, a rising edge being previous
  value 0 and current value 1, a falling edge the converse.  The two conditions are the ones
  the trigger dumps of the source name: flag 0 is \<open>@(posedge clk)\<close>, flag 1 is
  \<open>@(negedge Top.__Vcellinp__TriggerCounterImpl__rst_n or posedge clk)\<close>.
\<close>

definition computeTriggers :: "Vtop_root \<Rightarrow> 2 word" where
  "computeTriggers s =
     (let posedge_clk = (Vtrigprevexpr___TOP__clk__0 s = 0 \<and> clk s = 1);
          negedge_rst_n =
            (Vtrigprevexpr___TOP__Top__DOT____Vcellinp__TriggerCounterImpl__rst_n__0 s = 1 \<and>
             Top__DOT____Vcellinp__TriggerCounterImpl__rst_n s = 0)
      in VlTriggerVec_set 1 (negedge_rst_n \<or> posedge_clk) (VlTriggerVec_set 0 posedge_clk 0))"

text \<open>
  Modelled from the spec: a Region of section 3, ``an ordered list of Update Functions and a
  trigger-mask describing which trigger bits cause it to run''.
\<close>

record region =
  trigger_mask :: "2 word"
  update_functions :: "vl_function list"

text \<open>
  Modelled from the spec: a region runs when its mask meets the trigger set, every function
  in declaration order, each seeing the writes of the ones before it.
\<close>

definition run_region :: "region \<Rightarrow> 2 word \<Rightarrow> Vtop_root \<Rightarrow> Vtop_root" where
  "run_region r triggers s =
     (if trigger_mask r AND triggers \<noteq> 0 then fold (\<lambda>f t. f t) (update_functions r) s else s)"

text \<open>
  Modelled from the spec: \<open>step\<close> of section 4.4.  The trigger set is computed once; the
  active region and then the non-blocking-commit region run against that same set; the
  previous values are snapshotted last.
\<close>

definition step :: "region \<Rightarrow> region \<Rightarrow> Vtop_root \<Rightarrow> Vtop_root" where
  "step active nba s =
     (let triggers = computeTriggers s;
          s1 = run_region active triggers s;
          s2 = run_region nba triggers s1
      in snapshotPrevious s2)"

subsection \<open>The counter scenario\<close>

text \<open>
  Modelled from the spec: the concrete scenario of section 8, on the fields the header
  declares for the trigger counter (\<open>count\<close>, \<open>new_count\<close> for the spec's \<open>count_next\<close>,
  \<open>delta\<close>).  This is its active function,
  \<open>if rst then count_next = 0 else count_next = count + delta\<close>.
\<close>

definition active_count_next :: "Vtop_root \<Rightarrow> Vtop_root" where
  "active_count_next s =
     s\<lparr>Top__DOT__TriggerCounterImpl__DOT__new_count :=
         (if rst s \<noteq> 0 then 0
          else Top__DOT__TriggerCounterImpl__DOT__count s +
               Top__DOT__TriggerCounterImpl__DOT__delta s)\<rparr>"

text \<open>
  Modelled from the spec: the non-blocking-commit function of the scenario,
  \<open>count = count_next\<close>.
\<close>

definition nba_count_commit :: "Vtop_root \<Rightarrow> Vtop_root" where
  "nba_count_commit s =
     s\<lparr>Top__DOT__TriggerCounterImpl__DOT__count :=
         Top__DOT__TriggerCounterImpl__DOT__new_count s\<rparr>"

text \<open>
  Modelled from the spec: the two regions of the scenario, each with its one function and
  the mask of the rising clock edge (flag 0), and the step of the scheduler over them.
\<close>

definition counter_active :: region where
  "counter_active = \<lparr>trigger_mask = 1, update_functions = [active_count_next]\<rparr>"

definition counter_nba :: region where
  "counter_nba = \<lparr>trigger_mask = 1, update_functions = [nba_count_commit]\<rparr>"

definition counter_step :: "Vtop_root \<Rightarrow> Vtop_root" where
  "counter_step = step counter_active counter_nba"

text \<open>
  Modelled from the spec: the Step Driver of section 2 driving \<open>clk\<close> from 0 to 1 with
  \<open>rst\<close> held at \<open>r\<close>: it writes the inputs and calls the scheduler once per clock level.
\<close>

definition drive_clk :: "CData \<Rightarrow> Vtop_root \<Rightarrow> Vtop_root" where
  "drive_clk r s = counter_step ((counter_step (s\<lparr>rst := r, clk := 0\<rparr>))\<lparr>clk := 1\<rparr>)"

section \<open>Sample circuits and a sample model\<close>

text \<open>The model with every field zero.\<close>

definition zero_root :: Vtop_root where
  "zero_root =
     \<lparr>clk = 0,
      Top__DOT____Vcellinp__TriggerCounterImpl__rst_n = 0,
      rst = 0,
      global_finish = 0,
      Top__DOT__clk = 0,
      Top__DOT__rst = 0,
      Top__DOT__global_finish = 0,
      Top__DOT___Driver_executed = 0,
      Top__DOT___Driver_cnt_w_port0 = 0,
      Top__DOT___TriggerCounterImpl_pop_valid = 0,
      Top__DOT__cnt__DOT__clk = 0,
      Top__DOT__cnt__DOT__rst = 0,
      Top__DOT__cnt__DOT__w_port0 = 0,
      Top__DOT__cnt__DOT__widx_port0 = 0,
      Top__DOT__TriggerCounterImpl__DOT__clk = 0,
      Top__DOT__TriggerCounterImpl__DOT__rst_n = 0,
      Top__DOT__TriggerCounterImpl__DOT__delta = 0,
      Top__DOT__TriggerCounterImpl__DOT__delta_ready = 0,
      Top__DOT__TriggerCounterImpl__DOT__pop_ready = 0,
      Top__DOT__TriggerCounterImpl__DOT__pop_valid = 0,
      Top__DOT__TriggerCounterImpl__DOT__count = 0,
      Top__DOT__TriggerCounterImpl__DOT__temp = 0,
      Top__DOT__TriggerCounterImpl__DOT__new_count = 0,
      Top__DOT__Driver__DOT__clk = 0,
      Top__DOT__Driver__DOT__rst = 0,
      Top__DOT__Driver__DOT__trigger_counter_pop_valid = 0,
      Top__DOT__Driver__DOT__executed = 0,
      Top__DOT__Driver__DOT__finish = 0,
      Top__DOT__Driver__DOT__cnt_w_port0 = 0,
      Top__DOT__Driver__DOT__cnt_widx_port0 = 0,
      Top__DOT__Driver__DOT__valid_Driver_cnt_rd_1 = 0,
      VstlFirstIteration = 0,
      VicoFirstIteration = 0,
      Vtrigprevexpr___TOP__clk__0 = 0,
      Vtrigprevexpr___TOP__Top__DOT____Vcellinp__TriggerCounterImpl__rst_n__0 = 0,
      VactContinue = 0,
      Top__DOT___Driver_cnt_wdata_port0 = 0,
      Top__DOT___cnt_rdata_port0 = 0,
      Top__DOT___cnt_rdata_port1 = 0,
      Top__DOT__cnt__DOT__wdata_port0 = 0,
      Top__DOT__cnt__DOT__rdata_port0 = 0,
      Top__DOT__cnt__DOT__rdata_port1 = 0,
      Top__DOT__cnt__DOT___GEN = 0,
      Top__DOT__cnt__DOT___GEN_0 = 0,
      Top__DOT__Driver__DOT__cnt_rdata_port0 = 0,
      Top__DOT__Driver__DOT__cnt_rdata_port1 = 0,
      Top__DOT__Driver__DOT__cnt_wdata_port0 = 0,
      Top__DOT__Driver__DOT__expose_Driver_cnt_rd_1 = 0,
      VactIterCount = 0,
      global_cycle_count = 0,
      Top__DOT__global_cycle_count = 0,
      Top__DOT___GEN = 0,
      Top__DOT__Driver__DOT__cycle_count = 0,
      VstlTriggered = 0,
      VicoTriggered = 0,
      VactTriggered = 0,
      VnbaTriggered = 0\<rparr>"

text \<open>
  A settle region that never converges, in the manner of the spec's cyclic pair: its trigger
  fires on every pass and its logic inverts a net each time.
\<close>

definition cyclic_trg :: "Vtop_root \<Rightarrow> Vtop_root" where
  "cyclic_trg s = s\<lparr>VstlTriggered := VlTriggerVec_set 0 True (VstlTriggered s)\<rparr>"

definition cyclic_ico :: "Vtop_root \<Rightarrow> Vtop_root" where
  "cyclic_ico s = s\<lparr>Top__DOT__clk := 1 XOR Top__DOT__clk s\<rparr>"

text \<open>
  A settle region that needs as many passes as the value of a counter: its trigger fires
  while the counter is not zero and its logic counts down.
\<close>

definition countdown_trg :: "Vtop_root \<Rightarrow> Vtop_root" where
  "countdown_trg s =
     s\<lparr>VstlTriggered :=
         VlTriggerVec_set 0 (Top__DOT__TriggerCounterImpl__DOT__count s \<noteq> 0) (VstlTriggered s)\<rparr>"

definition countdown_ico :: "Vtop_root \<Rightarrow> Vtop_root" where
  "countdown_ico s =
     s\<lparr>Top__DOT__TriggerCounterImpl__DOT__count :=
         Top__DOT__TriggerCounterImpl__DOT__count s - 1\<rparr>"

text \<open>
  Combinational settle logic: it drives the inverted reset into the counter cell and copies
  the two inputs onto the nets of the top module.
\<close>

definition wiring_ico :: "Vtop_root \<Rightarrow> Vtop_root" where
  "wiring_ico s =
     s\<lparr>Top__DOT____Vcellinp__TriggerCounterImpl__rst_n := 1 AND NOT (rst s),
       Top__DOT__clk := clk s,
       Top__DOT__rst := rst s\<rparr>"

section \<open>The settle loop as a run of passes\<close>

lemma unat_inc: "\<not> 0x64 < (c::IData) \<Longrightarrow> unat (1 + c) = Suc (unat c)"
  by (simp add: word_less_nat_alt unat_word_ariths)

lemma settle_loop_stop: "settle_loop trg ico c 0 s = (c, Inr s)"
  by (simp add: settle_loop.simps)

lemma settle_loop_fatal: "0x64 < c \<Longrightarrow> settle_loop trg ico c 1 s = (c, Inl settle_fatal)"
  by (simp add: settle_loop.simps)

lemma settle_loop_step:
  "\<not> 0x64 < c \<Longrightarrow> settle_loop trg ico c 1 s =
     settle_loop trg ico (1 + c) (if stl_fired trg ico s then 1 else 0) (stl_pass trg ico s)"
  by (subst settle_loop.simps) (simp add: stl_fired_def stl_pass_def Let_def)

lemma settle_loop_char:
  "unat c + n = 101 \<Longrightarrow>
   settle_loop trg ico c 1 s =
     (c + of_nat (stl_passes trg ico n s),
      if stl_all_fired trg ico n s then Inl settle_fatal
      else Inr ((stl_pass trg ico ^^ stl_passes trg ico n s) s))"
proof (induction n arbitrary: c s)
  case 0
  then have "0x64 < c" by (simp add: word_less_nat_alt)
  then show ?case by (simp add: settle_loop_fatal)
next
  case (Suc n)
  then have le: "\<not> 0x64 < c" by (simp add: word_less_nat_alt)
  then have u: "unat (1 + c) + n = 101" using Suc.prems by (simp add: unat_inc)
  show ?case
  proof (cases "stl_fired trg ico s")
    case True
    then show ?thesis
      using Suc.IH [OF u, of "stl_pass trg ico s"] le
      by (simp add: settle_loop_step funpow_swap1 add.assoc)
  next
    case False
    then show ?thesis using le by (simp add: settle_loop_step settle_loop_stop)
  qed
qed

lemma eval_settle_run_char:
  "eval_settle_run trg ico s =
     (of_nat (stl_passes trg ico 101 (s\<lparr>VstlFirstIteration := 1\<rparr>)),
      if stl_all_fired trg ico 101 (s\<lparr>VstlFirstIteration := 1\<rparr>) then Inl settle_fatal
      else Inr ((stl_pass trg ico ^^ stl_passes trg ico 101 (s\<lparr>VstlFirstIteration := 1\<rparr>))
                  (s\<lparr>VstlFirstIteration := 1\<rparr>)))"
  unfolding eval_settle_run_def
  by (subst settle_loop_char [where n = 101]) simp_all

lemma stl_passes_le: "stl_passes trg ico n s \<le> n"
  by (induction n arbitrary: s) auto

lemma stl_passes_all_fired: "stl_all_fired trg ico n s \<Longrightarrow> stl_passes trg ico n s = n"
  by (induction n arbitrary: s) auto

lemma stl_passes_quiet:
  "\<not> stl_all_fired trg ico n s \<Longrightarrow>
   0 < stl_passes trg ico n s \<and>
   \<not> stl_fired trg ico ((stl_pass trg ico ^^ (stl_passes trg ico n s - 1)) s)"
proof (induction n arbitrary: s)
  case 0
  then show ?case by simp
next
  case (Suc n)
  show ?case
  proof (cases "stl_fired trg ico s")
    case False
    then show ?thesis by simp
  next
    case True
    with Suc.prems have nq: "\<not> stl_all_fired trg ico n (stl_pass trg ico s)" by simp
    define k where "k = stl_passes trg ico n (stl_pass trg ico s)"
    from Suc.IH [OF nq] have pos: "0 < k"
      and q: "\<not> stl_fired trg ico ((stl_pass trg ico ^^ (k - 1)) (stl_pass trg ico s))"
      by (simp_all add: k_def)
    from pos obtain j where j: "k = Suc j" by (cases k) auto
    have "(stl_pass trg ico ^^ k) s = (stl_pass trg ico ^^ j) (stl_pass trg ico s)"
      by (simp add: j funpow_swap1)
    with q j True show ?thesis by (simp add: k_def [symmetric])
  qed
qed

subsection \<open>Passes of the source against iterations of the spec\<close>

lemma stl_passes_pos: "0 < stl_passes trg ico (Suc n) s"
  by simp

lemma stl_fired_any: "stl_fired trg ico s = VlTriggerVec_any (VstlTriggered (trg s))"
  by (simp add: stl_fired_def eval_phase__stl_def Let_def)

lemma stl_pass_cases:
  "stl_pass trg ico s =
     (if VlTriggerVec_any (VstlTriggered (trg s))
      then (eval_stl ico (trg s))\<lparr>VstlFirstIteration := 0\<rparr>
      else (trg s)\<lparr>VstlFirstIteration := 0\<rparr>)"
  by (simp add: stl_pass_def eval_phase__stl_def Let_def)

text \<open>
  A pass that fires is the trigger computation that ends one iteration followed by the logic
  that begins the next: \<open>n + 1\<close> passes that all fire are a trigger on entry and \<open>n\<close>
  iterations none of which ends quiet.
\<close>

lemma stl_all_fired_spec:
  "stl_all_fired trg ico (Suc n) s =
     (VlTriggerVec_any (VstlTriggered (trg s)) \<and> spec_not_converged trg ico n (trg s))"
proof (induction n arbitrary: s)
  case 0
  show ?case by (simp add: stl_fired_any)
next
  case (Suc n)
  show ?case
  proof (cases "VlTriggerVec_any (VstlTriggered (trg s))")
    case True
    then have p: "stl_pass trg ico s = (eval_stl ico (trg s))\<lparr>VstlFirstIteration := 0\<rparr>"
      by (simp add: stl_pass_cases)
    have "stl_all_fired trg ico (Suc (Suc n)) s =
            stl_all_fired trg ico (Suc n) (stl_pass trg ico s)"
      using True by (subst stl_all_fired.simps(2)) (simp only: stl_fired_any simp_thms)
    also have "\<dots> =
        (VlTriggerVec_any (VstlTriggered (trg (stl_pass trg ico s))) \<and>
         spec_not_converged trg ico n (trg (stl_pass trg ico s)))"
      by (rule Suc.IH)
    finally show ?thesis
      using True by (simp add: p Let_def)
  next
    case False
    then show ?thesis by (simp add: stl_fired_any)
  qed
qed

subsection \<open>A trigger vector of one flag\<close>

lemma set_flag0_1: "VlTriggerVec_set 0 b (v :: 1 word) = (if b then 1 else 0)"
  unfolding VlTriggerVec_set_def
  by (auto intro!: bit_word_eqI simp: bit_simps)

lemma any_1: "VlTriggerVec_any (1 :: 1 word)" "\<not> VlTriggerVec_any (0 :: 1 word)"
  by (simp_all add: VlTriggerVec_any_def)

lemma word0_1: "1 AND VlTriggerVec_word0 (1 :: 1 word) \<noteq> 0"
  by (simp add: VlTriggerVec_word0_def)

section \<open>Static initialisation and finalisation change nothing\<close>

text \<open>
  Claim C10.  \<open>eval_static\<close> and \<open>eval_final\<close> leave every field of the model state
  unchanged: for every model state, either operation returns that same state.
\<close>

theorem eval_static_final_identity: "eval_static s = s \<and> eval_final s = s"
  by (simp add: eval_static_def eval_final_def)

section \<open>The snapshots taken by the initial evaluation\<close>

text \<open>
  Claim C9.  Immediately after \<open>eval_initial\<close> the two previous-value snapshots equal the
  current values of their sensitivity signals, \<open>clk\<close> and the \<open>rst_n\<close> cell input of the
  trigger counter.  The initial evaluation assigns neither signal, so each snapshot is the
  value its signal held on entry.  For \<open>clk\<close>, which only the driver writes: after a write
  the signal differs from its snapshot exactly when the written value differs from the one
  at initialisation, and the rising-edge condition (previous value 0, current value 1, the
  \<open>@(posedge clk)\<close> of the trigger dumps) holds exactly when the driver has changed \<open>clk\<close>
  from 0 to 1.  For the cell input, which the logic of the design drives and the initial
  block does not assign, the snapshot is the value that construction left: the falling-edge
  condition (previous value 1, current value 0) holds exactly when that value was 1 and the
  cell input has since been driven to 0, whatever the driver has or has not written.
\<close>

theorem eval_initial_snapshots_current:
  "Vtrigprevexpr___TOP__clk__0 (eval_initial s) = clk (eval_initial s) \<and>
   Vtrigprevexpr___TOP__Top__DOT____Vcellinp__TriggerCounterImpl__rst_n__0 (eval_initial s) =
     Top__DOT____Vcellinp__TriggerCounterImpl__rst_n (eval_initial s) \<and>
   clk (eval_initial s) = clk s \<and>
   Top__DOT____Vcellinp__TriggerCounterImpl__rst_n (eval_initial s) =
     Top__DOT____Vcellinp__TriggerCounterImpl__rst_n s \<and>
   (clk ((eval_initial s)\<lparr>clk := c\<rparr>) \<noteq> Vtrigprevexpr___TOP__clk__0 ((eval_initial s)\<lparr>clk := c\<rparr>))
     = (c \<noteq> clk s) \<and>
   (Top__DOT____Vcellinp__TriggerCounterImpl__rst_n
      ((eval_initial s)\<lparr>Top__DOT____Vcellinp__TriggerCounterImpl__rst_n := r\<rparr>) \<noteq>
    Vtrigprevexpr___TOP__Top__DOT____Vcellinp__TriggerCounterImpl__rst_n__0
      ((eval_initial s)\<lparr>Top__DOT____Vcellinp__TriggerCounterImpl__rst_n := r\<rparr>))
     = (r \<noteq> Top__DOT____Vcellinp__TriggerCounterImpl__rst_n s) \<and>
   (Vtrigprevexpr___TOP__clk__0 ((eval_initial s)\<lparr>clk := c\<rparr>) = 0 \<and>
    clk ((eval_initial s)\<lparr>clk := c\<rparr>) = 1)
     = (clk s = 0 \<and> c = 1) \<and>
   (Vtrigprevexpr___TOP__Top__DOT____Vcellinp__TriggerCounterImpl__rst_n__0
      ((eval_initial s)\<lparr>Top__DOT____Vcellinp__TriggerCounterImpl__rst_n := r\<rparr>) = 1 \<and>
    Top__DOT____Vcellinp__TriggerCounterImpl__rst_n
      ((eval_initial s)\<lparr>Top__DOT____Vcellinp__TriggerCounterImpl__rst_n := r\<rparr>) = 0)
     = (Top__DOT____Vcellinp__TriggerCounterImpl__rst_n s = 1 \<and> r = 0)"
  by (simp add: eval_initial_def eval_initial__TOP_def Let_def)

text \<open>
  Against claim C9 as it is worded, with no edge unless the driver has changed a signal
  after initialisation.  The cell input is not an input of the model; the logic of the
  design drives it, here with the inverted reset.  A model is constructed with the cell
  input at 1 and with \<open>rst\<close> held at 1.  After the initial evaluation the logic runs, and
  the driver writes nothing: \<open>clk\<close> and \<open>rst\<close> are as they were.  The cell input now stands
  at 0 against a snapshot of 1, a falling edge.  From the same model constructed with the
  cell input at 0 there is none: the edge comes from the value that the snapshot took over
  from construction.
\<close>

theorem eval_initial_snapshots_counterexample:
  "clk (wiring_ico (eval_initial
          (zero_root\<lparr>rst := 1, Top__DOT____Vcellinp__TriggerCounterImpl__rst_n := 1\<rparr>))) =
     clk (zero_root\<lparr>rst := 1, Top__DOT____Vcellinp__TriggerCounterImpl__rst_n := 1\<rparr>) \<and>
   rst (wiring_ico (eval_initial
          (zero_root\<lparr>rst := 1, Top__DOT____Vcellinp__TriggerCounterImpl__rst_n := 1\<rparr>))) =
     rst (zero_root\<lparr>rst := 1, Top__DOT____Vcellinp__TriggerCounterImpl__rst_n := 1\<rparr>) \<and>
   Vtrigprevexpr___TOP__Top__DOT____Vcellinp__TriggerCounterImpl__rst_n__0
     (wiring_ico (eval_initial
        (zero_root\<lparr>rst := 1, Top__DOT____Vcellinp__TriggerCounterImpl__rst_n := 1\<rparr>))) = 1 \<and>
   Top__DOT____Vcellinp__TriggerCounterImpl__rst_n
     (wiring_ico (eval_initial
        (zero_root\<lparr>rst := 1, Top__DOT____Vcellinp__TriggerCounterImpl__rst_n := 1\<rparr>))) = 0 \<and>
   Vtrigprevexpr___TOP__Top__DOT____Vcellinp__TriggerCounterImpl__rst_n__0
     (wiring_ico (eval_initial (zero_root\<lparr>rst := 1\<rparr>))) = 0 \<and>
   Top__DOT____Vcellinp__TriggerCounterImpl__rst_n
     (wiring_ico (eval_initial (zero_root\<lparr>rst := 1\<rparr>))) = 0"
  by (simp add: wiring_ico_def eval_initial_def eval_initial__TOP_def zero_root_def Let_def)

section \<open>The settle loop under the first-iteration trigger\<close>

lemma phase_first:
  "eval_phase__stl eval_triggers__stl ico (s\<lparr>VstlFirstIteration := 1\<rparr>) =
     (True, ico (s\<lparr>VstlFirstIteration := 1, VstlTriggered := 1\<rparr>))"
  by (simp add: eval_phase__stl_def eval_triggers__stl_def eval_stl_def Let_def set_flag0_1 any_1 word0_1)

lemma phase_later:
  "eval_phase__stl eval_triggers__stl ico (s\<lparr>VstlFirstIteration := 0\<rparr>) =
     (False, s\<lparr>VstlFirstIteration := 0, VstlTriggered := 0\<rparr>)"
  by (simp add: eval_phase__stl_def eval_triggers__stl_def eval_stl_def Let_def set_flag0_1 any_1)

lemma eval_settle_run_first_iteration:
  "eval_settle_run eval_triggers__stl ico s =
     (2, Inr ((ico (s\<lparr>VstlFirstIteration := 1, VstlTriggered := 1\<rparr>))
                \<lparr>VstlFirstIteration := 0, VstlTriggered := 0\<rparr>))"
proof -
  let ?s0 = "s\<lparr>VstlFirstIteration := 1\<rparr>"
  let ?s1 = "(ico (s\<lparr>VstlFirstIteration := 1, VstlTriggered := 1\<rparr>))\<lparr>VstlFirstIteration := 0\<rparr>"
  have f1: "stl_fired eval_triggers__stl ico ?s0" by (simp add: stl_fired_def phase_first)
  have p1: "stl_pass eval_triggers__stl ico ?s0 = ?s1" by (simp add: stl_pass_def phase_first)
  have f2: "\<not> stl_fired eval_triggers__stl ico ?s1" by (simp add: stl_fired_def phase_later)
  have p2: "stl_pass eval_triggers__stl ico ?s1 = ?s1\<lparr>VstlTriggered := 0\<rparr>"
    by (simp add: stl_pass_def phase_later)
  have "settle_loop eval_triggers__stl ico 0 1 ?s0 = settle_loop eval_triggers__stl ico 1 1 ?s1"
    using f1 p1 by (simp add: settle_loop_step)
  also have "\<dots> = settle_loop eval_triggers__stl ico 2 0 (?s1\<lparr>VstlTriggered := 0\<rparr>)"
    using f2 p2 by (simp add: settle_loop_step)
  also have "\<dots> = (2, Inr (?s1\<lparr>VstlTriggered := 0\<rparr>))" by (simp add: settle_loop_stop)
  finally show ?thesis by (simp add: eval_settle_run_def)
qed

lemma eval_settle_char:
  "eval_settle trg ico s =
     (if stl_all_fired trg ico 101 (s\<lparr>VstlFirstIteration := 1\<rparr>) then Inl settle_fatal
      else Inr ((stl_pass trg ico ^^ stl_passes trg ico 101 (s\<lparr>VstlFirstIteration := 1\<rparr>))
                  (s\<lparr>VstlFirstIteration := 1\<rparr>)))"
  by (simp add: eval_settle_def eval_settle_run_char)

lemma eval_settle_first_iteration:
  "eval_settle eval_triggers__stl ico s =
     Inr ((ico (s\<lparr>VstlFirstIteration := 1, VstlTriggered := 1\<rparr>))
            \<lparr>VstlFirstIteration := 0, VstlTriggered := 0\<rparr>)"
  by (simp add: eval_settle_def eval_settle_run_first_iteration)

text \<open>
  Claim C5.  In every call to settle the first-iteration flag forces the settle trigger on
  the first pass of the loop, whatever the model holds (no previous value is consulted), so
  the settle logic runs once; the flag is cleared after that pass, the second pass finds no
  trigger and the call returns after two passes with the flag clear.  While the flag is
  clear a settle phase never fires: it only fires again when a settle call sets the flag
  anew.
\<close>

theorem settle_first_iteration_forced_once:
  "stl_fired eval_triggers__stl ico (s\<lparr>VstlFirstIteration := 1\<rparr>) \<and>
   eval_settle_run eval_triggers__stl ico s =
     (2, Inr ((ico (s\<lparr>VstlFirstIteration := 1, VstlTriggered := 1\<rparr>))
                \<lparr>VstlFirstIteration := 0, VstlTriggered := 0\<rparr>)) \<and>
   eval_settle eval_triggers__stl ico s =
     Inr ((ico (s\<lparr>VstlFirstIteration := 1, VstlTriggered := 1\<rparr>))
            \<lparr>VstlFirstIteration := 0, VstlTriggered := 0\<rparr>) \<and>
   eval_phase__stl eval_triggers__stl ico (t\<lparr>VstlFirstIteration := 0\<rparr>) =
     (False, t\<lparr>VstlFirstIteration := 0, VstlTriggered := 0\<rparr>) \<and>
   VstlFirstIteration (stl_pass trg ico t) = 0"
  by (simp add: stl_fired_def stl_pass_def phase_first phase_later eval_settle_first_iteration
      eval_settle_run_first_iteration)

section \<open>Calling settle a second time\<close>





section \<open>The iteration cap of the settle loop\<close>

subsection \<open>The sample circuits that do not converge at once\<close>

lemma cyclic_fired: "stl_fired cyclic_trg cyclic_ico s"
  by (simp add: stl_fired_def eval_phase__stl_def cyclic_trg_def Let_def set_flag0_1 any_1)

lemma cyclic_all_fired: "stl_all_fired cyclic_trg cyclic_ico n s"
  by (induction n arbitrary: s) (simp_all add: cyclic_fired)

lemma countdown_fired:
  "stl_fired countdown_trg countdown_ico s = (Top__DOT__TriggerCounterImpl__DOT__count s \<noteq> 0)"
  by (simp add: stl_fired_def eval_phase__stl_def countdown_trg_def Let_def set_flag0_1 any_1)

lemma countdown_pass:
  "stl_pass countdown_trg countdown_ico s =
     (if Top__DOT__TriggerCounterImpl__DOT__count s \<noteq> 0
      then s\<lparr>VstlTriggered := 1,
             Top__DOT__TriggerCounterImpl__DOT__count := Top__DOT__TriggerCounterImpl__DOT__count s - 1,
             VstlFirstIteration := 0\<rparr>
      else s\<lparr>VstlTriggered := 0, VstlFirstIteration := 0\<rparr>)"
  by (simp add: stl_pass_def eval_phase__stl_def countdown_trg_def countdown_ico_def eval_stl_def
      Let_def set_flag0_1 any_1 word0_1)

lemma countdown_all_fired:
  "n \<le> unat (Top__DOT__TriggerCounterImpl__DOT__count s) \<Longrightarrow> stl_all_fired countdown_trg countdown_ico n s"
proof (induction n arbitrary: s)
  case 0
  then show ?case by simp
next
  case (Suc n)
  then have nz: "Top__DOT__TriggerCounterImpl__DOT__count s \<noteq> 0" by (auto simp: unat_eq_0)
  then have "unat (Top__DOT__TriggerCounterImpl__DOT__count s - 1) = unat (Top__DOT__TriggerCounterImpl__DOT__count s) - 1"
    by (simp add: unat_minus_one)
  with Suc nz show ?case by (simp add: countdown_fired countdown_pass)
qed

lemma countdown_quiet:
  "unat (Top__DOT__TriggerCounterImpl__DOT__count s) = m \<Longrightarrow> m < n \<Longrightarrow>
   \<not> stl_all_fired countdown_trg countdown_ico n s \<and>
   stl_passes countdown_trg countdown_ico n s = Suc m \<and>
   (stl_pass countdown_trg countdown_ico ^^ Suc m) s =
     s\<lparr>VstlTriggered := 0, Top__DOT__TriggerCounterImpl__DOT__count := 0, VstlFirstIteration := 0\<rparr>"
proof (induction m arbitrary: s n)
  case 0
  then have z: "Top__DOT__TriggerCounterImpl__DOT__count s = 0" by (simp add: unat_eq_0)
  from 0 obtain n' where n: "n = Suc n'" by (cases n) auto
  show ?case using z by (simp add: n countdown_fired countdown_pass)
next
  case (Suc m)
  then have nz: "Top__DOT__TriggerCounterImpl__DOT__count s \<noteq> 0" by (auto simp: unat_eq_0)
  then have u: "unat (Top__DOT__TriggerCounterImpl__DOT__count s - 1) = m"
    using Suc.prems by (simp add: unat_minus_one)
  from Suc.prems obtain n' where n: "n = Suc n'" and lt: "m < n'" by (cases n) auto
  let ?s = "s\<lparr>VstlTriggered := 1,
             Top__DOT__TriggerCounterImpl__DOT__count := Top__DOT__TriggerCounterImpl__DOT__count s - 1,
             VstlFirstIteration := 0\<rparr>"
  have p: "stl_pass countdown_trg countdown_ico s = ?s" using nz by (simp add: countdown_pass)
  have "unat (Top__DOT__TriggerCounterImpl__DOT__count ?s) = m" using u by simp
  from Suc.IH [OF this lt] show ?case
    using nz p by (simp add: n countdown_fired funpow_swap1)
qed

lemma unat_pass_count: "k \<le> 101 \<Longrightarrow> unat (of_nat k :: IData) = k"
  by (simp add: unsigned_of_nat take_bit_nat_eq_self)

lemma countdown_runs:
  "n \<le> unat (Top__DOT__TriggerCounterImpl__DOT__count s) \<Longrightarrow>
   Top__DOT__TriggerCounterImpl__DOT__count ((stl_pass countdown_trg countdown_ico ^^ n) s) =
     Top__DOT__TriggerCounterImpl__DOT__count s - of_nat n"
proof (induction n arbitrary: s)
  case 0
  show ?case by simp
next
  case (Suc n)
  then have nz: "Top__DOT__TriggerCounterImpl__DOT__count s \<noteq> 0" by (auto simp: unat_eq_0)
  then have u: "unat (Top__DOT__TriggerCounterImpl__DOT__count s - 1) =
      unat (Top__DOT__TriggerCounterImpl__DOT__count s) - 1"
    by (simp add: unat_minus_one)
  have c: "Top__DOT__TriggerCounterImpl__DOT__count (stl_pass countdown_trg countdown_ico s) =
      Top__DOT__TriggerCounterImpl__DOT__count s - 1"
    using nz by (simp add: countdown_pass)
  have "n \<le> unat (Top__DOT__TriggerCounterImpl__DOT__count (stl_pass countdown_trg countdown_ico s))"
    using Suc.prems u c by simp
  from Suc.IH [OF this] show ?case by (simp add: funpow_swap1 c)
qed

subsection \<open>When the fatal condition is reported\<close>

text \<open>
  Claim C2.  For every model state, and every settle region, \<open>eval_settle\<close> fails fatally
  if and only if the first 101 passes of its loop all report a trigger; in the spec's
  iterations (logic, then triggers): if and only if a trigger fired on entry and the region
  has not converged within the constant cap of \<open>0x64\<close> iterations after it.  The fatal
  condition is reported when the counter, which every call starts at zero and which counts
  the passes, has gone one past the cap, to 101: on no earlier pass, and without a further
  pass.  A call that does not fail has made between 1 and 101 passes.
\<close>

theorem eval_settle_cap:
  "isl (eval_settle trg ico s) = stl_all_fired trg ico 101 (s\<lparr>VstlFirstIteration := 1\<rparr>) \<and>
   isl (eval_settle trg ico s) =
     (VlTriggerVec_any (VstlTriggered (trg (s\<lparr>VstlFirstIteration := 1\<rparr>))) \<and>
      spec_not_converged trg ico 0x64 (trg (s\<lparr>VstlFirstIteration := 1\<rparr>))) \<and>
   (isl (eval_settle trg ico s) \<longrightarrow> eval_settle_run trg ico s = (101, Inl settle_fatal)) \<and>
   (\<not> isl (eval_settle trg ico s) \<longrightarrow>
      1 \<le> unat (fst (eval_settle_run trg ico s)) \<and>
      unat (fst (eval_settle_run trg ico s)) \<le> 101) \<and>
   unat (fst (eval_settle_run trg ico s)) =
     stl_passes trg ico 101 (s\<lparr>VstlFirstIteration := 1\<rparr>) \<and>
   settle_loop trg ico 0 1 (s\<lparr>VstlFirstIteration := 1\<rparr>) = eval_settle_run trg ico s"
proof -
  let ?s0 = "s\<lparr>VstlFirstIteration := 1\<rparr>"
  have a: "isl (eval_settle trg ico s) = stl_all_fired trg ico 101 ?s0"
    by (simp add: eval_settle_char)
  have b: "eval_settle_run trg ico s = (101, Inl settle_fatal)" if "stl_all_fired trg ico 101 ?s0"
    using that by (simp add: eval_settle_run_char stl_passes_all_fired)
  have le: "stl_passes trg ico 101 ?s0 \<le> 101" by (rule stl_passes_le)
  then have c: "unat (fst (eval_settle_run trg ico s)) = stl_passes trg ico 101 ?s0"
    by (simp add: eval_settle_run_char unat_pass_count)
  have pos: "0 < stl_passes trg ico (Suc 100) ?s0" by (rule stl_passes_pos)
  then have d: "1 \<le> unat (fst (eval_settle_run trg ico s))" using c by simp
  have "stl_all_fired trg ico (Suc 100) ?s0 =
     (VlTriggerVec_any (VstlTriggered (trg ?s0)) \<and> spec_not_converged trg ico 100 (trg ?s0))"
    by (rule stl_all_fired_spec)
  then have e: "isl (eval_settle trg ico s) =
     (VlTriggerVec_any (VstlTriggered (trg ?s0)) \<and> spec_not_converged trg ico 0x64 (trg ?s0))"
    using a by simp
  have f: "settle_loop trg ico 0 1 ?s0 = eval_settle_run trg ico s"
    by (simp add: eval_settle_run_def)
  from a b c d e f le show ?thesis by auto
qed

text \<open>
  The cyclic region fails, with the counter at 101; the region that counts down from 2
  returns after its third pass.
\<close>

theorem eval_settle_cap_witness:
  "isl (eval_settle cyclic_trg cyclic_ico zero_root) \<and>
   eval_settle_run cyclic_trg cyclic_ico zero_root = (101, Inl settle_fatal) \<and>
   \<not> isl (eval_settle countdown_trg countdown_ico
            (zero_root\<lparr>Top__DOT__TriggerCounterImpl__DOT__count := 2\<rparr>)) \<and>
   unat (fst (eval_settle_run countdown_trg countdown_ico
               (zero_root\<lparr>Top__DOT__TriggerCounterImpl__DOT__count := 2\<rparr>))) = 3"
proof -
  let ?a = "zero_root\<lparr>Top__DOT__TriggerCounterImpl__DOT__count := 2\<rparr>"
  note A = eval_settle_cap [of cyclic_trg cyclic_ico zero_root]
  note B = eval_settle_cap [of countdown_trg countdown_ico ?a]
  have all: "stl_all_fired cyclic_trg cyclic_ico 101 (zero_root\<lparr>VstlFirstIteration := 1\<rparr>)"
    by (rule cyclic_all_fired)
  have a1: "isl (eval_settle cyclic_trg cyclic_ico zero_root)"
    using A all by blast
  have a2: "eval_settle_run cyclic_trg cyclic_ico zero_root = (101, Inl settle_fatal)"
    using A a1 by blast
  have "unat (Top__DOT__TriggerCounterImpl__DOT__count (?a\<lparr>VstlFirstIteration := 1\<rparr>)) = 2"
    by simp
  from countdown_quiet [OF this, of 101]
  have q: "\<not> stl_all_fired countdown_trg countdown_ico 101 (?a\<lparr>VstlFirstIteration := 1\<rparr>)"
    and n: "stl_passes countdown_trg countdown_ico 101 (?a\<lparr>VstlFirstIteration := 1\<rparr>) = 3"
    by simp_all
  have b1: "\<not> isl (eval_settle countdown_trg countdown_ico ?a)"
    using B q by blast
  from B have "unat (fst (eval_settle_run countdown_trg countdown_ico ?a)) =
      stl_passes countdown_trg countdown_ico 101 (?a\<lparr>VstlFirstIteration := 1\<rparr>)"
    by blast
  with n have b2: "unat (fst (eval_settle_run countdown_trg countdown_ico ?a)) = 3"
    by simp
  from a1 a2 b1 b2 show ?thesis by blast
qed

text \<open>
  Against claim C2 as it is worded, with the cap \<open>0x64 = 100\<close> as the point of the report.
  The region that counts down from 101 fails with the counter at 101, not at 100: all of its
  101 passes have fired, and its logic has run 101 times, bringing the count to 0.  The
  region that counts down from 100 has fired on each of its first 100 passes, and at a
  counter of 100 nothing is reported: the loop makes pass 101 and returns.
\<close>

theorem eval_settle_cap_counterexample:
  "eval_settle_run countdown_trg countdown_ico
     (zero_root\<lparr>Top__DOT__TriggerCounterImpl__DOT__count := 101\<rparr>) = (101, Inl settle_fatal) \<and>
   (101 :: IData) \<noteq> 0x64 \<and>
   stl_all_fired countdown_trg countdown_ico 101
     (zero_root\<lparr>Top__DOT__TriggerCounterImpl__DOT__count := 101, VstlFirstIteration := 1\<rparr>) \<and>
   Top__DOT__TriggerCounterImpl__DOT__count
     ((stl_pass countdown_trg countdown_ico ^^ 101)
        (zero_root\<lparr>Top__DOT__TriggerCounterImpl__DOT__count := 101,
                    VstlFirstIteration := 1\<rparr>)) = 0 \<and>
   stl_all_fired countdown_trg countdown_ico 100
     (zero_root\<lparr>Top__DOT__TriggerCounterImpl__DOT__count := 100, VstlFirstIteration := 1\<rparr>) \<and>
   eval_settle_run countdown_trg countdown_ico
     (zero_root\<lparr>Top__DOT__TriggerCounterImpl__DOT__count := 100\<rparr>) = (101, Inr zero_root)"
proof -
  let ?a = "zero_root\<lparr>Top__DOT__TriggerCounterImpl__DOT__count := 100\<rparr>"
  let ?b = "zero_root\<lparr>Top__DOT__TriggerCounterImpl__DOT__count := 101\<rparr>"
  have bad: "stl_all_fired countdown_trg countdown_ico 101 (?b\<lparr>VstlFirstIteration := 1\<rparr>)"
    by (rule countdown_all_fired) simp
  then have b1: "eval_settle_run countdown_trg countdown_ico ?b = (101, Inl settle_fatal)"
    by (simp add: eval_settle_run_char stl_passes_all_fired)
  have b2: "(101 :: IData) \<noteq> 0x64" by simp
  have "unat (Top__DOT__TriggerCounterImpl__DOT__count (?b\<lparr>VstlFirstIteration := 1\<rparr>)) = 100 + 1"
    by simp
  have b3: "Top__DOT__TriggerCounterImpl__DOT__count
     ((stl_pass countdown_trg countdown_ico ^^ 101) (?b\<lparr>VstlFirstIteration := 1\<rparr>)) = 0"
    by (simp add: countdown_runs)
  have a1: "stl_all_fired countdown_trg countdown_ico 100 (?a\<lparr>VstlFirstIteration := 1\<rparr>)"
    by (rule countdown_all_fired) simp
  have "unat (Top__DOT__TriggerCounterImpl__DOT__count (?a\<lparr>VstlFirstIteration := 1\<rparr>)) = 100"
    by simp
  from countdown_quiet [OF this, of 101]
  have "eval_settle_run countdown_trg countdown_ico ?a =
          (101, Inr (?a\<lparr>VstlFirstIteration := 1, VstlTriggered := 0,
                   Top__DOT__TriggerCounterImpl__DOT__count := 0, VstlFirstIteration := 0\<rparr>))"
    by (simp add: eval_settle_run_char)
  also have "?a\<lparr>VstlFirstIteration := 1, VstlTriggered := 0,
                Top__DOT__TriggerCounterImpl__DOT__count := 0, VstlFirstIteration := 0\<rparr> = zero_root"
    by (simp add: zero_root_def)
  finally have a2: "eval_settle_run countdown_trg countdown_ico ?a = (101, Inr zero_root)" .
  from b1 b2 bad b3 a1 a2 show ?thesis by simp
qed

subsection \<open>The loop is bounded\<close>

text \<open>
  Claim C7.  For every starting model state the settle loop terminates, after at least one
  and at most 101 phase evaluations, one more than the iteration cap \<open>0x64\<close>; the counter
  on leaving the loop is their number.  Either the last phase evaluation found no settle
  trigger, and the model it left is returned, or all 101 found one and the fatal
  non-convergence error is raised.  The loop can never iterate unboundedly.
\<close>

theorem settle_loop_terminates:
  "unat (fst (eval_settle_run trg ico s)) = stl_passes trg ico 101 (s\<lparr>VstlFirstIteration := 1\<rparr>) \<and>
   0 < stl_passes trg ico 101 (s\<lparr>VstlFirstIteration := 1\<rparr>) \<and>
   stl_passes trg ico 101 (s\<lparr>VstlFirstIteration := 1\<rparr>) \<le> 101 \<and>
   ((eval_settle trg ico s =
       Inr ((stl_pass trg ico ^^ stl_passes trg ico 101 (s\<lparr>VstlFirstIteration := 1\<rparr>))
              (s\<lparr>VstlFirstIteration := 1\<rparr>)) \<and>
     \<not> stl_fired trg ico
         ((stl_pass trg ico ^^ (stl_passes trg ico 101 (s\<lparr>VstlFirstIteration := 1\<rparr>) - 1))
            (s\<lparr>VstlFirstIteration := 1\<rparr>)))
    \<or>
    (eval_settle trg ico s = Inl settle_fatal \<and>
     stl_passes trg ico 101 (s\<lparr>VstlFirstIteration := 1\<rparr>) = 101 \<and>
     stl_all_fired trg ico 101 (s\<lparr>VstlFirstIteration := 1\<rparr>)))"
proof -
  let ?s0 = "s\<lparr>VstlFirstIteration := 1\<rparr>"
  have le: "stl_passes trg ico 101 ?s0 \<le> 101" by (rule stl_passes_le)
  then have cnt: "unat (fst (eval_settle_run trg ico s)) = stl_passes trg ico 101 ?s0"
    by (simp add: eval_settle_run_char unat_pass_count)
  have "0 < stl_passes trg ico (Suc 100) ?s0" by (rule stl_passes_pos)
  then have pos: "0 < stl_passes trg ico 101 ?s0" by simp
  have dich: "(eval_settle trg ico s = Inr ((stl_pass trg ico ^^ stl_passes trg ico 101 ?s0) ?s0) \<and>
      \<not> stl_fired trg ico ((stl_pass trg ico ^^ (stl_passes trg ico 101 ?s0 - 1)) ?s0))
    \<or>
     (eval_settle trg ico s = Inl settle_fatal \<and>
      stl_passes trg ico 101 ?s0 = 101 \<and> stl_all_fired trg ico 101 ?s0)"
  proof (cases "stl_all_fired trg ico 101 ?s0")
    case True
    then show ?thesis by (simp add: eval_settle_char stl_passes_all_fired)
  next
    case False
    from stl_passes_quiet [OF False] False show ?thesis
      by (simp add: eval_settle_char)
  qed
  from cnt pos le dich show ?thesis by blast
qed

text \<open>
  Under the first-iteration trigger of the design the loop ends after two phase
  evaluations, the second of which finds no trigger.
\<close>

theorem settle_loop_terminates_witness:
  "unat (fst (eval_settle_run eval_triggers__stl cyclic_ico zero_root)) = 2 \<and>
   stl_passes eval_triggers__stl cyclic_ico 101 (zero_root\<lparr>VstlFirstIteration := 1\<rparr>) = 2 \<and>
   eval_settle eval_triggers__stl cyclic_ico zero_root =
     Inr ((stl_pass eval_triggers__stl cyclic_ico ^^ 2) (zero_root\<lparr>VstlFirstIteration := 1\<rparr>)) \<and>
   \<not> stl_fired eval_triggers__stl cyclic_ico
       (stl_pass eval_triggers__stl cyclic_ico (zero_root\<lparr>VstlFirstIteration := 1\<rparr>))"
proof -
  note T = settle_loop_terminates [of eval_triggers__stl cyclic_ico zero_root]
  have two: "unat (fst (eval_settle_run eval_triggers__stl cyclic_ico zero_root)) = 2"
    by (simp add: eval_settle_run_first_iteration)
  from T have "unat (fst (eval_settle_run eval_triggers__stl cyclic_ico zero_root)) =
      stl_passes eval_triggers__stl cyclic_ico 101 (zero_root\<lparr>VstlFirstIteration := 1\<rparr>)"
    by (rule conjunct1)
  with two have n: "stl_passes eval_triggers__stl cyclic_ico 101
      (zero_root\<lparr>VstlFirstIteration := 1\<rparr>) = 2"
    by simp
  have ok: "eval_settle eval_triggers__stl cyclic_ico zero_root \<noteq> Inl settle_fatal"
    by (simp add: eval_settle_first_iteration)
  from T ok have "eval_settle eval_triggers__stl cyclic_ico zero_root =
       Inr ((stl_pass eval_triggers__stl cyclic_ico ^^
              stl_passes eval_triggers__stl cyclic_ico 101 (zero_root\<lparr>VstlFirstIteration := 1\<rparr>))
              (zero_root\<lparr>VstlFirstIteration := 1\<rparr>)) \<and>
     \<not> stl_fired eval_triggers__stl cyclic_ico
         ((stl_pass eval_triggers__stl cyclic_ico ^^
            (stl_passes eval_triggers__stl cyclic_ico 101 (zero_root\<lparr>VstlFirstIteration := 1\<rparr>) - 1))
            (zero_root\<lparr>VstlFirstIteration := 1\<rparr>))"
    by blast
  then have r: "eval_settle eval_triggers__stl cyclic_ico zero_root =
       Inr ((stl_pass eval_triggers__stl cyclic_ico ^^ 2) (zero_root\<lparr>VstlFirstIteration := 1\<rparr>))"
    and q: "\<not> stl_fired eval_triggers__stl cyclic_ico
       (stl_pass eval_triggers__stl cyclic_ico (zero_root\<lparr>VstlFirstIteration := 1\<rparr>))"
    unfolding n by simp_all
  from two n r q show ?thesis by blast
qed

text \<open>
  Against claim C7 as it is worded, with at most the iteration cap \<open>0x64 = 100\<close> of phase
  evaluations before the fatal error.  The cyclic region raises the error after 101 phase
  evaluations, every one of which has fired: the counter stands at 101, above the cap.
\<close>

theorem settle_loop_terminates_counterexample:
  "eval_settle cyclic_trg cyclic_ico zero_root = Inl settle_fatal \<and>
   fst (eval_settle_run cyclic_trg cyclic_ico zero_root) = 101 \<and>
   0x64 < fst (eval_settle_run cyclic_trg cyclic_ico zero_root) \<and>
   stl_passes cyclic_trg cyclic_ico 101 (zero_root\<lparr>VstlFirstIteration := 1\<rparr>) = 101 \<and>
   stl_all_fired cyclic_trg cyclic_ico 101 (zero_root\<lparr>VstlFirstIteration := 1\<rparr>) \<and>
   \<not> (101 :: nat) \<le> 0x64"
proof -
  have all: "stl_all_fired cyclic_trg cyclic_ico 101 (zero_root\<lparr>VstlFirstIteration := 1\<rparr>)"
    by (rule cyclic_all_fired)
  then have n: "stl_passes cyclic_trg cyclic_ico 101 (zero_root\<lparr>VstlFirstIteration := 1\<rparr>) = 101"
    by (rule stl_passes_all_fired)
  have run: "eval_settle_run cyclic_trg cyclic_ico zero_root = (101, Inl settle_fatal)"
    using all by (simp add: eval_settle_run_char stl_passes_all_fired)
  then have fatal: "eval_settle cyclic_trg cyclic_ico zero_root = Inl settle_fatal"
    by (simp add: eval_settle_def)
  from run have c: "fst (eval_settle_run cyclic_trg cyclic_ico zero_root) = 101" by simp
  then have gt: "0x64 < fst (eval_settle_run cyclic_trg cyclic_ico zero_root)" by simp
  from fatal c gt n all show ?thesis by simp
qed

section \<open>The counter scenario under the region scheduler\<close>

lemma set_flags_2:
  "VlTriggerVec_set (Suc 0) b (VlTriggerVec_set 0 p (0 :: 2 word)) =
     (if p then (if b then 3 else 1) else (if b then 2 else 0))"
  by (simp add: VlTriggerVec_set_def set_bit_eq_or unset_bit_eq_and_not push_bit_eq_mult)

lemma posedge_flag:
  "(1 AND computeTriggers s \<noteq> 0) = (Vtrigprevexpr___TOP__clk__0 s = 0 \<and> clk s = 1)"
  by (simp add: computeTriggers_def set_flags_2 Let_def)

lemma counter_step_posedge:
  "Vtrigprevexpr___TOP__clk__0 s = 0 \<Longrightarrow> clk s = 1 \<Longrightarrow>
   counter_step s =
     snapshotPrevious (nba_count_commit (active_count_next s))"
  by (simp add: counter_step_def step_def run_region_def counter_active_def counter_nba_def
      posedge_flag Let_def)

lemma counter_step_idle:
  assumes "\<not> (Vtrigprevexpr___TOP__clk__0 s = 0 \<and> clk s = 1)"
  shows "counter_step s = snapshotPrevious s"
proof -
  from assms have z: "1 AND computeTriggers s = 0"
    using posedge_flag [of s] by blast
  show ?thesis
    by (simp add: counter_step_def step_def run_region_def counter_active_def counter_nba_def
        Let_def z)
qed

lemma drive_clk_count:
  "Top__DOT__TriggerCounterImpl__DOT__count (drive_clk r s) =
     (if r \<noteq> 0 then 0
      else Top__DOT__TriggerCounterImpl__DOT__count s + Top__DOT__TriggerCounterImpl__DOT__delta s)"
  by (simp add: drive_clk_def counter_step_idle counter_step_posedge snapshotPrevious_def
      nba_count_commit_def active_count_next_def)

lemma drive_clk_delta:
  "Top__DOT__TriggerCounterImpl__DOT__delta (drive_clk r s) =
     Top__DOT__TriggerCounterImpl__DOT__delta s"
  by (simp add: drive_clk_def counter_step_idle counter_step_posedge snapshotPrevious_def
      nba_count_commit_def active_count_next_def)

lemma drive_clk_run:
  "Top__DOT__TriggerCounterImpl__DOT__delta ((drive_clk 0 ^^ n) s) =
     Top__DOT__TriggerCounterImpl__DOT__delta s \<and>
   Top__DOT__TriggerCounterImpl__DOT__count ((drive_clk 0 ^^ n) s) =
     Top__DOT__TriggerCounterImpl__DOT__count s +
       of_nat n * Top__DOT__TriggerCounterImpl__DOT__delta s"
  by (induction n) (simp_all add: drive_clk_count drive_clk_delta algebra_simps)

text \<open>
  Claim C3.  In the counter scenario (active region: \<open>count_next\<close> is \<open>0\<close> under \<open>rst\<close> and
  \<open>count + delta\<close> otherwise, with \<open>delta = 1\<close>; non-blocking-commit region:
  \<open>count = count_next\<close>), starting from a reset state, driving \<open>clk\<close> from 0 to 1 five times
  with \<open>rst = 0\<close> leaves \<open>count\<close> equal to 5, and driving it once more with \<open>rst = 1\<close>
  leaves \<open>count\<close> equal to 0, as it does from any model whatever its count.
\<close>

theorem counter_five_edges_then_reset:
  assumes "Top__DOT__TriggerCounterImpl__DOT__count s = 0"
      and "Top__DOT__TriggerCounterImpl__DOT__delta s = 1"
  shows "Top__DOT__TriggerCounterImpl__DOT__count ((drive_clk 0 ^^ 5) s) = 5 \<and>
         Top__DOT__TriggerCounterImpl__DOT__count (drive_clk 1 ((drive_clk 0 ^^ 5) s)) = 0 \<and>
         Top__DOT__TriggerCounterImpl__DOT__count (drive_clk 1 t) = 0"
  using assms drive_clk_run [of 5 s] by (simp add: drive_clk_count)

theorem counter_five_edges_then_reset_witness:
  "Top__DOT__TriggerCounterImpl__DOT__count (drive_clk 1 (eval_initial zero_root)) = 0 \<and>
   Top__DOT__TriggerCounterImpl__DOT__delta (drive_clk 1 (eval_initial zero_root)) = 1 \<and>
   Top__DOT__TriggerCounterImpl__DOT__count
     ((drive_clk 0 ^^ 5) (drive_clk 1 (eval_initial zero_root))) = 5 \<and>
   Top__DOT__TriggerCounterImpl__DOT__count
     (drive_clk 1 ((drive_clk 0 ^^ 5) (drive_clk 1 (eval_initial zero_root)))) = 0"
proof -
  have h1: "Top__DOT__TriggerCounterImpl__DOT__count (drive_clk 1 (eval_initial zero_root)) = 0"
    by (simp add: drive_clk_count)
  have h2: "Top__DOT__TriggerCounterImpl__DOT__delta (drive_clk 1 (eval_initial zero_root)) = 1"
    by (simp add: drive_clk_delta eval_initial_def eval_initial__TOP_def Let_def)
  from counter_five_edges_then_reset [OF h1 h2] h1 h2 show ?thesis by simp
qed

end
